theory Spec2Isabelle
  imports Complex_Main
begin

section \<open>Python values\<close>

text \<open>
  The handlers of \<^verbatim>\<open>app/api/resources/user.py\<close> read the parsed request body
  (\<^verbatim>\<open>request.json\<close>) and test its fields for truthiness, so the values they see are
  modelled as Python values: \<^verbatim>\<open>None\<close>, booleans, integers, floats (by their rational
  value), strings, lists or tuples, and dictionaries with string keys (an association
  list of the items).
\<close>

datatype pyval =
    PNone
  | PBool bool
  | PInt int
  | PFloat rat
  | PStr string
  | PList "pyval list"
  | PDict "(string \<times> pyval) list"

datatype py_error = AttributeError | TypeError | KeyError | IndexError | OverflowError

text \<open>Python's truth test, as \<^verbatim>\<open>not x\<close> and \<^verbatim>\<open>if x\<close> apply it.\<close>

fun truthy :: "pyval \<Rightarrow> bool" where
  "truthy PNone = False"
| "truthy (PBool b) = b"
| "truthy (PInt i) = (i \<noteq> 0)"
| "truthy (PFloat r) = (r \<noteq> 0)"
| "truthy (PStr s) = (s \<noteq> [])"
| "truthy (PList xs) = (xs \<noteq> [])"
| "truthy (PDict kvs) = (kvs \<noteq> [])"

text \<open>\<^verbatim>\<open>d.get(k, None)\<close>: only a dictionary has the method.\<close>

fun dict_get :: "pyval \<Rightarrow> string \<Rightarrow> py_error + pyval" where
  "dict_get (PDict kvs) k = (case map_of kvs k of None \<Rightarrow> Inr PNone | Some v \<Rightarrow> Inr v)"
| "dict_get _ k = Inl AttributeError"

text \<open>\<^verbatim>\<open>d[k]\<close> with a string key \<^verbatim>\<open>k\<close>.\<close>

fun subscript_key :: "pyval \<Rightarrow> string \<Rightarrow> py_error + pyval" where
  "subscript_key (PDict kvs) k = (case map_of kvs k of None \<Rightarrow> Inl KeyError | Some v \<Rightarrow> Inr v)"
| "subscript_key _ k = Inl TypeError"

text \<open>\<^verbatim>\<open>x[i]\<close> with a non-negative integer literal \<^verbatim>\<open>i\<close>.\<close>

fun subscript_index :: "pyval \<Rightarrow> nat \<Rightarrow> py_error + pyval" where
  "subscript_index (PStr s) i = (if i < length s then Inr (PStr [s ! i]) else Inl IndexError)"
| "subscript_index (PList xs) i = (if i < length xs then Inr (xs ! i) else Inl IndexError)"
| "subscript_index (PDict kvs) i = Inl KeyError"
| "subscript_index _ i = Inl TypeError"

text \<open>\<^verbatim>\<open>isinstance(x, int)\<close>: \<^verbatim>\<open>bool\<close> is a subclass of \<^verbatim>\<open>int\<close>.\<close>

fun isinstance_int :: "pyval \<Rightarrow> bool" where
  "isinstance_int (PInt i) = True"
| "isinstance_int (PBool b) = True"
| "isinstance_int _ = False"

section \<open>Collaborators of the handlers\<close>

text \<open>
  A user row, with the attributes the handlers read (\<^verbatim>\<open>id\<close>, \<^verbatim>\<open>name\<close>,
  \<^verbatim>\<open>is_email_verified\<close>) and those of the data model the credential store keeps.
\<close>

record user =
  id' :: int
  name :: string
  username :: string
  email :: string
  password_hash :: string
  is_email_verified :: bool

text \<open>A handler returns a pair of a body and a status code.\<close>

type_synonym response = "pyval \<times> int"

text \<open>
  The constants of \<^verbatim>\<open>app.utils.responses.ResponseMessages\<close> that the modelled
  handlers read. The module is not among the sources, so the constants are parameters.
\<close>

record ResponseMessages =
  USER_ID_IS_NOT_VALID :: pyval
  USER_DOES_NOT_EXIST :: pyval
  USER_IS_NOT_REGISTERED_IN_THE_SYSTEM :: pyval
  EMAIL_ALREADY_CONFIRMED :: pyval
  EMAIL_VERIFICATION_MESSAGE :: pyval
  USERNAME_FIELD_IS_MISSING :: pyval
  PASSWORD_FIELD_IS_MISSING :: pyval
  USERNAME_OR_PASSWORD_FIELD_IS_INCORRECTLY_FILLED_UP :: pyval
  USER_HAS_NOT_VERIFIED_EMAIL_BEFORE_LOGIN :: pyval

text \<open>
  Times: a naive \<^verbatim>\<open>datetime\<close> is the number of microseconds since
  0001-01-01 00:00:00, a \<^verbatim>\<open>timedelta\<close> a number of microseconds. Adding them raises
  \<^verbatim>\<open>OverflowError\<close> outside \<^verbatim>\<open>datetime.min .. datetime.max\<close>
  (\<^verbatim>\<open>datetime.max\<close> is the last microsecond of day 3652059).
\<close>

type_synonym datetime = int
type_synonym timedelta = int

definition datetime_end :: int where
  "datetime_end = 3652059 * 86400 * 1000000"

definition datetime_add :: "datetime \<Rightarrow> timedelta \<Rightarrow> py_error + datetime" where
  "datetime_add d t = (if 0 \<le> d + t \<and> d + t < datetime_end then Inr (d + t) else Inl OverflowError)"

text \<open>
  The library and framework functions the handlers call, and the request-scoped values
  they read: the validators of \<^verbatim>\<open>app.api.validations.user\<close>, \<^verbatim>\<open>marshal\<close> with the
  public user model, \<^verbatim>\<open>create_access_token\<close>, the clock \<^verbatim>\<open>datetime.utcnow()\<close>,
  the configuration entry \<^verbatim>\<open>JWT_ACCESS_TOKEN_EXPIRES\<close> (\<^verbatim>\<open>config.get\<close> gives
  \<^verbatim>\<open>None\<close> when it is not set), the time zone of the server, given by its offset
  from UTC at each local time, and the body with which the framework answers a URL that
  matches no route.
\<close>

record externals =
  validate_update_profile_request_data :: "pyval \<Rightarrow> pyval"
  validate_new_password :: "pyval \<Rightarrow> pyval"
  validate_user_registration_request_data :: "pyval \<Rightarrow> pyval"
  validate_resend_email_request_data :: "pyval \<Rightarrow> pyval"
  marshal_public_user :: "user \<Rightarrow> pyval"
  create_access_token :: "int \<Rightarrow> string"
  utcnow :: datetime
  JWT_ACCESS_TOKEN_EXPIRES :: "timedelta option"
  local_utcoffset :: "datetime \<Rightarrow> timedelta"
  route_not_found :: pyval

text \<open>
  The epoch 1970-01-01 00:00:00 is day 719162 after 0001-01-01. The POSIX time of the
  instant whose reading in UTC is \<open>d\<close> is the number of seconds from the epoch to \<open>d\<close>.
\<close>

definition epoch :: datetime where
  "epoch = 719162 * 86400 * 1000000"

definition posix_of_utc :: "datetime \<Rightarrow> rat" where
  "posix_of_utc d = of_int (d - epoch) / 1000000"

text \<open>
  \<^verbatim>\<open>datetime.timestamp()\<close> of a naive datetime: the library reads a naive datetime
  as local time of the server, so the result is the POSIX time of the instant whose
  local reading is \<open>d\<close>, that is \<open>d\<close> less the offset of the zone from UTC at that
  local time. The float it returns is modelled by its rational value.
\<close>

definition timestamp :: "externals \<Rightarrow> datetime \<Rightarrow> rat" where
  "timestamp ext d = of_int (d - epoch - local_utcoffset ext d) / 1000000"

text \<open>
  The data access object \<^verbatim>\<open>DAO = UserDAO()\<close>. Its class is not among the sources:
  each method the modelled handlers call is a parameter, a function of the store
  \<open>'s\<close> that returns its result and the store it leaves. The result of
  \<^verbatim>\<open>confirm_registration\<close> is returned by its handler unread, hence of any type \<open>'c\<close>.
\<close>

record ('s, 'c) UserDAO =
  get_user :: "pyval \<Rightarrow> 's \<Rightarrow> user option \<times> 's"
  update_user_profile :: "pyval \<Rightarrow> pyval \<Rightarrow> 's \<Rightarrow> response \<times> 's"
  change_password :: "pyval \<Rightarrow> pyval \<Rightarrow> 's \<Rightarrow> response \<times> 's"
  create_user :: "pyval \<Rightarrow> 's \<Rightarrow> response \<times> 's"
  confirm_registration :: "pyval \<Rightarrow> 's \<Rightarrow> 'c \<times> 's"
  get_user_by_email :: "pyval \<Rightarrow> 's \<Rightarrow> user option \<times> 's"
  authenticate :: "pyval \<Rightarrow> pyval \<Rightarrow> 's \<Rightarrow> user option \<times> 's"

text \<open>
  What a handler does to the outside: the calls it makes on the DAO and on the mailer
  (\<^verbatim>\<open>send_email_verification_message\<close>), in order.
\<close>

datatype event =
    Dao_get_user pyval
  | Dao_update_user_profile pyval pyval
  | Dao_change_password pyval pyval
  | Dao_create_user pyval
  | Dao_confirm_registration pyval
  | Dao_get_user_by_email pyval
  | Dao_authenticate pyval pyval
  | Send_email_verification_message pyval pyval

record 's world =
  store :: 's
  trace :: "event list"

definition dao_call :: "event \<Rightarrow> ('s \<Rightarrow> 'r \<times> 's) \<Rightarrow> 's world \<Rightarrow> 'r \<times> 's world" where
  "dao_call ev m w = (case m (store w) of (r, s') \<Rightarrow> (r, \<lparr>store = s', trace = trace w @ [ev]\<rparr>))"

definition send_email_verification_message :: "pyval \<Rightarrow> pyval \<Rightarrow> 's world \<Rightarrow> 's world" where
  "send_email_verification_message user_name email_address w =
     w\<lparr>trace := trace w @ [Send_email_verification_message user_name email_address]\<rparr>"

definition message :: "pyval \<Rightarrow> pyval" where
  "message m = PDict [(''message'', m)]"

section \<open>The handlers\<close>

text \<open>
  Each definition is the body of one handler method. The decorators around it
  (\<^verbatim>\<open>jwt_required\<close>, the documentation decorators) belong to the framework and run
  outside the body; the identity that \<^verbatim>\<open>get_jwt_identity()\<close> returns is an argument.
  The route of \<^verbatim>\<open>OtherUser\<close>, whose converter decides which ids reach the handler,
  is modelled after the handler.
\<close>

definition validate_param :: "pyval \<Rightarrow> bool" where
  "validate_param user_id = isinstance_int user_id"

definition OtherUser_get ::
  "ResponseMessages \<Rightarrow> externals \<Rightarrow> ('s, 'c) UserDAO \<Rightarrow> pyval \<Rightarrow> 's world
     \<Rightarrow> (py_error + response) \<times> 's world" where
  "OtherUser_get rm ext DAO user_id w =
     (if \<not> validate_param user_id then (Inr (message (USER_ID_IS_NOT_VALID rm), 400), w)
      else case dao_call (Dao_get_user user_id) (get_user DAO user_id) w of
        (requested_user, w1) \<Rightarrow>
          (case requested_user of
             None \<Rightarrow> (Inr (message (USER_DOES_NOT_EXIST rm), 404), w1)
           | Some u \<Rightarrow> (Inr (marshal_public_user ext u, 201), w1)))"





definition MyUserProfile_put ::
  "externals \<Rightarrow> ('s, 'c) UserDAO \<Rightarrow> pyval \<Rightarrow> pyval \<Rightarrow> 's world
     \<Rightarrow> (py_error + response) \<times> 's world" where
  "MyUserProfile_put ext DAO jwt_identity data w =
     (let is_valid = validate_update_profile_request_data ext data in
      if is_valid \<noteq> PDict [] then (Inr (is_valid, 400), w)
      else case dao_call (Dao_update_user_profile jwt_identity data)
                  (update_user_profile DAO jwt_identity data) w of
        (result, w1) \<Rightarrow> (Inr result, w1))"

definition ChangeUserPassword_put ::
  "externals \<Rightarrow> ('s, 'c) UserDAO \<Rightarrow> pyval \<Rightarrow> pyval \<Rightarrow> 's world
     \<Rightarrow> (py_error + response) \<times> 's world" where
  "ChangeUserPassword_put ext DAO jwt_identity data w =
     (let is_valid = validate_new_password ext data in
      if is_valid \<noteq> PDict [] then (Inr (is_valid, 400), w)
      else case dao_call (Dao_change_password jwt_identity data)
                  (change_password DAO jwt_identity data) w of
        (result, w1) \<Rightarrow> (Inr result, w1))"

text \<open>
  \<^verbatim>\<open>result[1] is 200\<close> compares identities. The status is an \<^verbatim>\<open>int\<close>, and CPython
  keeps one object for each integer from -5 to 256, so the test holds exactly when the
  status is the integer 200.
\<close>

definition UserRegister_post ::
  "externals \<Rightarrow> ('s, 'c) UserDAO \<Rightarrow> pyval \<Rightarrow> 's world
     \<Rightarrow> (py_error + response) \<times> 's world" where
  "UserRegister_post ext DAO data w =
     (let is_valid = validate_user_registration_request_data ext data in
      if is_valid \<noteq> PDict [] then (Inr (is_valid, 400), w)
      else case dao_call (Dao_create_user data) (create_user DAO data) w of
        (result, w1) \<Rightarrow>
          if snd result = 200 then
            (case subscript_key data ''name'' of
               Inl e \<Rightarrow> (Inl e, w1)
             | Inr user_name \<Rightarrow>
                 (case subscript_key data ''email'' of
                    Inl e \<Rightarrow> (Inl e, w1)
                  | Inr email_address \<Rightarrow>
                      (Inr result, send_email_verification_message user_name email_address w1)))
          else (Inr result, w1))"

definition UserEmailConfirmation_get ::
  "('s, 'c) UserDAO \<Rightarrow> pyval \<Rightarrow> 's world \<Rightarrow> 'c \<times> 's world" where
  "UserEmailConfirmation_get DAO token w =
     dao_call (Dao_confirm_registration token) (confirm_registration DAO token) w"

definition UserResendEmailConfirmation_post ::
  "ResponseMessages \<Rightarrow> externals \<Rightarrow> ('s, 'c) UserDAO \<Rightarrow> pyval \<Rightarrow> 's world
     \<Rightarrow> (py_error + response) \<times> 's world" where
  "UserResendEmailConfirmation_post rm ext DAO data w =
     (let is_valid = validate_resend_email_request_data ext data in
      if is_valid \<noteq> PDict [] then (Inr (is_valid, 400), w)
      else case subscript_key data ''email'' of
        Inl e \<Rightarrow> (Inl e, w)
      | Inr email_address \<Rightarrow>
          (case dao_call (Dao_get_user_by_email email_address)
                  (get_user_by_email DAO email_address) w of
             (None, w1) \<Rightarrow>
               (Inr (message (USER_IS_NOT_REGISTERED_IN_THE_SYSTEM rm), 404), w1)
           | (Some u, w1) \<Rightarrow>
               if is_email_verified u then
                 (Inr (message (EMAIL_ALREADY_CONFIRMED rm), 403), w1)
               else
                 (Inr (message (EMAIL_VERIFICATION_MESSAGE rm), 200),
                  send_email_verification_message (PStr (name u)) email_address w1)))"

definition LoginUser_post ::
  "ResponseMessages \<Rightarrow> externals \<Rightarrow> ('s, 'c) UserDAO \<Rightarrow> pyval \<Rightarrow> 's world
     \<Rightarrow> (py_error + response) \<times> 's world" where
  "LoginUser_post rm ext DAO request_json w =
     (case dict_get request_json ''username'' of
        Inl e \<Rightarrow> (Inl e, w)
      | Inr username_field \<Rightarrow>
     (case dict_get request_json ''password'' of
        Inl e \<Rightarrow> (Inl e, w)
      | Inr password \<Rightarrow>
     if \<not> truthy username_field then
       (Inr (message (USERNAME_FIELD_IS_MISSING rm), 400), w)
     else if \<not> truthy password then
       (case subscript_index (PASSWORD_FIELD_IS_MISSING rm) 1 of
          Inl e \<Rightarrow> (Inl e, w)
        | Inr m \<Rightarrow> (Inr (message m, 400), w))
     else
       (case dao_call (Dao_authenticate username_field password)
               (authenticate DAO username_field password) w of
          (None, w1) \<Rightarrow>
            (Inr (message (USERNAME_OR_PASSWORD_FIELD_IS_INCORRECTLY_FILLED_UP rm), 404), w1)
        | (Some u, w1) \<Rightarrow>
            if \<not> is_email_verified u then
              (Inr (message (USER_HAS_NOT_VERIFIED_EMAIL_BEFORE_LOGIN rm), 403), w1)
            else
              (let access_token = create_access_token ext (id' u) in
               case JWT_ACCESS_TOKEN_EXPIRES ext of
                 None \<Rightarrow> (Inl TypeError, w1)
               | Some ttl \<Rightarrow>
                   (case datetime_add (utcnow ext) ttl of
                      Inl e \<Rightarrow> (Inl e, w1)
                    | Inr expiry \<Rightarrow>
                        (Inr (PDict [(''access_token'', PStr access_token),
                                     (''expiry'', PFloat (timestamp ext expiry))], 200),
                         w1))))))"

section \<open>The data access object, after the specification\<close>

text \<open>
  Modelled from the spec: the lookups of the credential store behind the class
  \<^verbatim>\<open>UserDAO\<close> (\<^verbatim>\<open>app.api.dao.user\<close>), which is not among the sources. Section 3:
  the store holds the user records, and username and email identify a user. The store
  is the list of the rows; an identifier or an email address arrives as a Python value
  and matches a row when it is the string the row holds.
\<close>

definition find_by_username :: "pyval \<Rightarrow> user list \<Rightarrow> user option" where
  "find_by_username v s = find (\<lambda>u. PStr (username u) = v) s"

text \<open>Modelled from the spec: the lookup by email of the same missing store.\<close>

definition find_by_email :: "pyval \<Rightarrow> user list \<Rightarrow> user option" where
  "find_by_email v s = find (\<lambda>u. PStr (email u) = v) s"

text \<open>Modelled from the spec: the lookup by id of the same missing store.\<close>

definition find_by_id :: "pyval \<Rightarrow> user list \<Rightarrow> user option" where
  "find_by_id v s = find (\<lambda>u. PInt (id' u) = v) s"

text \<open>
  Modelled from the spec: the lookup that \<^verbatim>\<open>UserDAO.authenticate\<close> (missing, as
  above) starts with. Section 4.3: the identifier may equal either the username or the
  email, and the lookup tries both fields.
\<close>

definition resolve_identifier :: "pyval \<Rightarrow> user list \<Rightarrow> user option" where
  "resolve_identifier identifier s =
     (case find_by_username identifier s of
        Some u \<Rightarrow> Some u
      | None \<Rightarrow> find_by_email identifier s)"

text \<open>
  Modelled from the spec: \<^verbatim>\<open>UserDAO.authenticate\<close>, whose class
  (\<^verbatim>\<open>app.api.dao.user\<close>) is not among the sources. Section 4.3: a missing record and
  a password-hash mismatch are reported alike, as no user; the operation only reads the
  store. The hash comparison is the parameter \<open>check_password_hash\<close>.
\<close>

definition spec_authenticate ::
  "(string \<Rightarrow> pyval \<Rightarrow> bool) \<Rightarrow> pyval \<Rightarrow> pyval \<Rightarrow> user list \<Rightarrow> user option \<times> user list" where
  "spec_authenticate check_password_hash identifier password s =
     (case resolve_identifier identifier s of
        None \<Rightarrow> (None, s)
      | Some u \<Rightarrow>
          if check_password_hash (password_hash u) password then (Some u, s) else (None, s))"

text \<open>
  Modelled from the spec: the outcomes of \<^verbatim>\<open>UserDAO.confirm_registration\<close> (missing,
  as above), named as sections 4.4 and 7 name them.
\<close>

datatype confirm_outcome = Success | AlreadyConfirmed | InvalidToken | NotFound

text \<open>
  Modelled from the spec: the transition of section 4.2, from unverified to verified,
  of the user with the given email address.
\<close>

definition set_verified :: "pyval \<Rightarrow> user \<Rightarrow> user" where
  "set_verified v u = (if PStr (email u) = v then u\<lparr>is_email_verified := True\<rparr> else u)"

text \<open>
  Modelled from the spec: \<^verbatim>\<open>UserDAO.confirm_registration\<close>, of the same missing class.
  Section 4.4: the token is decoded, which fails with \<open>InvalidToken\<close>; the target user is
  resolved (by the email address the token binds to); a user who is already verified is
  rejected with \<open>AlreadyConfirmed\<close>; otherwise the state becomes verified and the
  operation succeeds. The spec names no outcome for a token whose user is not in the
  store; the \<open>NotFound\<close> of its section 7 stands for it. Decoding is the parameter
  \<open>decode\<close> of the token codec.
\<close>

definition spec_confirm_registration ::
  "(pyval \<Rightarrow> string option) \<Rightarrow> pyval \<Rightarrow> user list \<Rightarrow> confirm_outcome \<times> user list" where
  "spec_confirm_registration decode token s =
     (case decode token of
        None \<Rightarrow> (InvalidToken, s)
      | Some e \<Rightarrow>
          (case find_by_email (PStr e) s of
             None \<Rightarrow> (NotFound, s)
           | Some u \<Rightarrow>
               if is_email_verified u then (AlreadyConfirmed, s)
               else (Success, map (set_verified (PStr e)) s)))"

text \<open>A run of confirmation requests, one token after the other.\<close>

fun run_confirmations :: "('s, 'c) UserDAO \<Rightarrow> pyval list \<Rightarrow> 's world \<Rightarrow> 's world" where
  "run_confirmations DAO [] w = w"
| "run_confirmations DAO (t # ts) w =
     run_confirmations DAO ts (snd (UserEmailConfirmation_get DAO t w))"

section \<open>Values for the worked examples\<close>

definition example_messages :: ResponseMessages where
  "example_messages =
     \<lparr>USER_ID_IS_NOT_VALID = PStr ''User ID is not valid.'',
      USER_DOES_NOT_EXIST = PStr ''User does not exist.'',
      USER_IS_NOT_REGISTERED_IN_THE_SYSTEM = PStr ''You are not registered in the system.'',
      EMAIL_ALREADY_CONFIRMED = PStr ''You already confirm your email.'',
      EMAIL_VERIFICATION_MESSAGE = PStr ''Check your email, a new verification email was sent.'',
      USERNAME_FIELD_IS_MISSING = PStr ''The field username is missing.'',
      PASSWORD_FIELD_IS_MISSING = PList [PStr ''password'', PStr ''Password field is missing.''],
      USERNAME_OR_PASSWORD_FIELD_IS_INCORRECTLY_FILLED_UP = PStr ''Username or password is wrong.'',
      USER_HAS_NOT_VERIFIED_EMAIL_BEFORE_LOGIN = PStr ''Please verify your email before login.''\<rparr>"

definition alice :: user where
  "alice = \<lparr>id' = 1, name = ''Alice'', username = ''alice'', email = ''a@x.com'',
            password_hash = ''Secret123'', is_email_verified = True\<rparr>"

definition bob :: user where
  "bob = \<lparr>id' = 2, name = ''Bob'', username = ''bob'', email = ''b@x.com'',
          password_hash = ''Hunter2hunter'', is_email_verified = False\<rparr>"

definition example_store :: "user list" where
  "example_store = [alice, bob]"

definition example_world :: "user list world" where
  "example_world = \<lparr>store = example_store, trace = []\<rparr>"

text \<open>A validator for the examples: the payload must be a dictionary with an email.\<close>

definition example_validate :: "pyval \<Rightarrow> pyval" where
  "example_validate data =
     (case subscript_key data ''email'' of
        Inl e \<Rightarrow> PDict [(''message'', PStr ''The email field is missing.'')]
      | Inr v \<Rightarrow> PDict [])"

definition example_externals :: externals where
  "example_externals =
     \<lparr>validate_update_profile_request_data = example_validate,
      validate_new_password = example_validate,
      validate_user_registration_request_data = example_validate,
      validate_resend_email_request_data = example_validate,
      marshal_public_user = (\<lambda>u. PDict [(''id'', PInt (id' u)), (''username'', PStr (username u)),
                                          (''name'', PStr (name u))]),
      create_access_token = (\<lambda>i. if i = 1 then ''token-1'' else ''token-n''),
      utcnow = 63700000000000000,
      JWT_ACCESS_TOKEN_EXPIRES = Some (7 * 86400 * 1000000),
      local_utcoffset = (\<lambda>d. 0),
      route_not_found =
        PDict [(''message'', PStr ''The requested URL was not found on the server.'')]\<rparr>"

text \<open>The same on a server whose zone is five and a half hours east of UTC.\<close>

definition example_externals_east :: externals where
  "example_externals_east =
     example_externals\<lparr>local_utcoffset := (\<lambda>d. 19800 * 1000000)\<rparr>"

text \<open>
  A data access object for the examples: the two operations modelled after the spec
  (with passwords stored as they are and a token that is the email address itself), and
  plain stand-ins for the others.
\<close>

definition example_decode :: "pyval \<Rightarrow> string option" where
  "example_decode token = (case token of PStr e \<Rightarrow> Some e | _ \<Rightarrow> None)"

definition example_DAO :: "(user list, confirm_outcome) UserDAO" where
  "example_DAO =
     \<lparr>get_user = (\<lambda>v s. (find_by_id v s, s)),
      update_user_profile = (\<lambda>i d s. ((message (PStr ''User was updated successfully''), 200), s)),
      change_password = (\<lambda>i d s. ((message (PStr ''Password was updated successfully.''), 200), s)),
      create_user = (\<lambda>d s.
        (case find_by_email (case subscript_key d ''email'' of Inr v \<Rightarrow> v | Inl e \<Rightarrow> PNone) s of
           None \<Rightarrow> ((message (PStr ''User was created successfully.''), 200), s)
         | Some u \<Rightarrow> ((message (PStr ''A user with that email already exists''), 400), s))),
      confirm_registration = spec_confirm_registration example_decode,
      get_user_by_email = (\<lambda>v s. (find_by_email v s, s)),
      authenticate = spec_authenticate (\<lambda>h p. p = PStr h)\<rparr>"

definition login_request :: "pyval \<Rightarrow> pyval \<Rightarrow> pyval" where
  "login_request u p = PDict [(''username'', u), (''password'', p)]"

lemmas example_defs =
  example_messages_def example_externals_def example_DAO_def example_world_def
  example_store_def example_validate_def example_decode_def alice_def bob_def
  login_request_def find_by_id_def find_by_email_def find_by_username_def
  resolve_identifier_def spec_authenticate_def spec_confirm_registration_def
  set_verified_def message_def

section \<open>Properties of the handlers\<close>




text \<open>
  C10: a get-user-by-id request with an integer id that matches a user is answered with
  status 201 and the marshalled public model of that user.
\<close>

theorem OtherUser_get_success_201:
  assumes "validate_param user_id"
    and "get_user DAO user_id (store w) = (Some u, s')"
  shows "fst (OtherUser_get rm ext DAO user_id w) = Inr (marshal_public_user ext u, 201)"
  using assms by (simp add: OtherUser_get_def dao_call_def)

theorem OtherUser_get_success_201_witness:
  "validate_param (PInt 1) \<and>
   get_user example_DAO (PInt 1) (store example_world) = (Some alice, example_store) \<and>
   fst (OtherUser_get example_messages example_externals example_DAO (PInt 1) example_world)
     = Inr (PDict [(''id'', PInt 1), (''username'', PStr ''alice''), (''name'', PStr ''Alice'')], 201)"
proof -
  have a: "validate_param (PInt 1)"
    by (simp add: validate_param_def)
  have b: "get_user example_DAO (PInt 1) (store example_world) = (Some alice, example_store)"
    by (simp add: example_DAO_def example_world_def example_store_def find_by_id_def alice_def)
  have m: "marshal_public_user example_externals alice
      = PDict [(''id'', PInt 1), (''username'', PStr ''alice''), (''name'', PStr ''Alice'')]"
    by (simp add: example_externals_def alice_def)
  from OtherUser_get_success_201 [OF a b, of example_messages example_externals] a b
  show ?thesis by (simp add: m)
qed

text \<open>
  C1 (as amended): for a login request whose body is a JSON object, the handler checks
  in this order and returns at the first failure: a falsy (empty or absent) username gives
  \<^verbatim>\<open>USERNAME_FIELD_IS_MISSING\<close> with status 400; a falsy password gives
  \<^verbatim>\<open>PASSWORD_FIELD_IS_MISSING[1]\<close> with status 400; credentials that
  \<^verbatim>\<open>DAO.authenticate\<close> rejects give
  \<^verbatim>\<open>USERNAME_OR_PASSWORD_FIELD_IS_INCORRECTLY_FILLED_UP\<close> with status 404; an
  authenticated user whose email is not verified gives
  \<^verbatim>\<open>USER_HAS_NOT_VERIFIED_EMAIL_BEFORE_LOGIN\<close> with status 403; otherwise the answer
  has status 200 and carries the access token created for the user's id and the
  timestamp of the expiry.
\<close>

theorem LoginUser_post_order:
  assumes "dict_get request_json ''username'' = Inr un"
    and "dict_get request_json ''password'' = Inr pw"
  shows
   "(\<not> truthy un \<longrightarrow>
       fst (LoginUser_post rm ext DAO request_json w)
         = Inr (message (USERNAME_FIELD_IS_MISSING rm), 400)) \<and>
    (truthy un \<and> \<not> truthy pw \<and> subscript_index (PASSWORD_FIELD_IS_MISSING rm) 1 = Inr m \<longrightarrow>
       fst (LoginUser_post rm ext DAO request_json w) = Inr (message m, 400)) \<and>
    (truthy un \<and> truthy pw \<and> fst (authenticate DAO un pw (store w)) = None \<longrightarrow>
       fst (LoginUser_post rm ext DAO request_json w)
         = Inr (message (USERNAME_OR_PASSWORD_FIELD_IS_INCORRECTLY_FILLED_UP rm), 404)) \<and>
    (truthy un \<and> truthy pw \<and> fst (authenticate DAO un pw (store w)) = Some u \<and>
       \<not> is_email_verified u \<longrightarrow>
       fst (LoginUser_post rm ext DAO request_json w)
         = Inr (message (USER_HAS_NOT_VERIFIED_EMAIL_BEFORE_LOGIN rm), 403)) \<and>
    (truthy un \<and> truthy pw \<and> fst (authenticate DAO un pw (store w)) = Some u \<and>
       is_email_verified u \<and> JWT_ACCESS_TOKEN_EXPIRES ext = Some ttl \<and>
       datetime_add (utcnow ext) ttl = Inr expiry \<longrightarrow>
       fst (LoginUser_post rm ext DAO request_json w)
         = Inr (PDict [(''access_token'', PStr (create_access_token ext (id' u))),
                       (''expiry'', PFloat (timestamp ext expiry))], 200))"
  using assms
  by (cases "authenticate DAO un pw (store w)")
     (simp add: LoginUser_post_def dao_call_def)

theorem LoginUser_post_order_witness:
  "fst (LoginUser_post example_messages example_externals example_DAO
          (PDict [(''password'', PStr ''Secret123'')]) example_world)
     = Inr (PDict [(''message'', PStr ''The field username is missing.'')], 400) \<and>
   fst (LoginUser_post example_messages example_externals example_DAO
          (login_request (PStr ''alice'') (PStr [])) example_world)
     = Inr (PDict [(''message'', PStr ''Password field is missing.'')], 400) \<and>
   fst (LoginUser_post example_messages example_externals example_DAO
          (login_request (PStr ''alice'') (PStr ''guess'')) example_world)
     = Inr (PDict [(''message'', PStr ''Username or password is wrong.'')], 404) \<and>
   fst (LoginUser_post example_messages example_externals example_DAO
          (login_request (PStr ''bob'') (PStr ''Hunter2hunter'')) example_world)
     = Inr (PDict [(''message'', PStr ''Please verify your email before login.'')], 403) \<and>
   fst (LoginUser_post example_messages example_externals example_DAO
          (login_request (PStr ''a@x.com'') (PStr ''Secret123'')) example_world)
     = Inr (PDict [(''access_token'', PStr ''token-1''), (''expiry'', PFloat 1565008000)], 200)"
proof -
  let ?L = "LoginUser_post example_messages example_externals example_DAO"
  have g1: "dict_get (PDict [(''password'', PStr ''Secret123'')]) ''username'' = Inr PNone"
    and g2: "dict_get (PDict [(''password'', PStr ''Secret123'')]) ''password'' = Inr (PStr ''Secret123'')"
    by simp_all
  have g3: "dict_get (login_request a b) ''username'' = Inr a"
    and g4: "dict_get (login_request a b) ''password'' = Inr b" for a b
    by (simp_all add: login_request_def)
  have r1: "fst (?L (PDict [(''password'', PStr ''Secret123'')]) example_world)
      = Inr (message (USERNAME_FIELD_IS_MISSING example_messages), 400)"
    using LoginUser_post_order [OF g1 g2, where rm = example_messages and ext = example_externals
        and DAO = example_DAO and w = example_world]
    by simp
  have h2: "truthy (PStr ''alice'') \<and> \<not> truthy (PStr []) \<and>
      subscript_index (PASSWORD_FIELD_IS_MISSING example_messages) 1
        = Inr (PStr ''Password field is missing.'')"
    by (simp add: example_messages_def)
  have r2: "fst (?L (login_request (PStr ''alice'') (PStr [])) example_world)
      = Inr (message (PStr ''Password field is missing.''), 400)"
    using LoginUser_post_order [OF g3 g4, where rm = example_messages and ext = example_externals
        and DAO = example_DAO and w = example_world and un = "PStr ''alice''" and pw = "PStr []"
        and m = "PStr ''Password field is missing.''"] h2
    by blast
  have h3: "truthy (PStr ''alice'') \<and> truthy (PStr ''guess'') \<and>
      fst (authenticate example_DAO (PStr ''alice'') (PStr ''guess'') (store example_world)) = None"
    by (simp add: example_defs)
  have r3: "fst (?L (login_request (PStr ''alice'') (PStr ''guess'')) example_world)
      = Inr (message (USERNAME_OR_PASSWORD_FIELD_IS_INCORRECTLY_FILLED_UP example_messages), 404)"
    using LoginUser_post_order [OF g3 g4, where rm = example_messages and ext = example_externals
        and DAO = example_DAO and w = example_world and un = "PStr ''alice''" and pw = "PStr ''guess''"] h3
    by blast
  have h4: "truthy (PStr ''bob'') \<and> truthy (PStr ''Hunter2hunter'') \<and>
      fst (authenticate example_DAO (PStr ''bob'') (PStr ''Hunter2hunter'') (store example_world))
        = Some bob \<and> \<not> is_email_verified bob"
    by (simp add: example_defs)
  have r4: "fst (?L (login_request (PStr ''bob'') (PStr ''Hunter2hunter'')) example_world)
      = Inr (message (USER_HAS_NOT_VERIFIED_EMAIL_BEFORE_LOGIN example_messages), 403)"
    using LoginUser_post_order [OF g3 g4, where rm = example_messages and ext = example_externals
        and DAO = example_DAO and w = example_world and un = "PStr ''bob''"
        and pw = "PStr ''Hunter2hunter''" and u = bob] h4
    by blast
  have h5: "truthy (PStr ''a@x.com'') \<and> truthy (PStr ''Secret123'') \<and>
      fst (authenticate example_DAO (PStr ''a@x.com'') (PStr ''Secret123'') (store example_world))
        = Some alice \<and> is_email_verified alice \<and>
      JWT_ACCESS_TOKEN_EXPIRES example_externals = Some 604800000000 \<and>
      datetime_add (utcnow example_externals) 604800000000 = Inr 63700604800000000"
    by (simp add: example_defs datetime_add_def datetime_end_def)
  have r5: "fst (?L (login_request (PStr ''a@x.com'') (PStr ''Secret123'')) example_world)
      = Inr (PDict [(''access_token'', PStr (create_access_token example_externals (id' alice))),
                    (''expiry'', PFloat (timestamp example_externals 63700604800000000))], 200)"
    using LoginUser_post_order [OF g3 g4, where rm = example_messages and ext = example_externals
        and DAO = example_DAO and w = example_world and un = "PStr ''a@x.com''"
        and pw = "PStr ''Secret123''" and u = alice and ttl = 604800000000
        and expiry = 63700604800000000] h5
    by blast
  have v: "create_access_token example_externals (id' alice) = ''token-1''"
    "timestamp example_externals 63700604800000000 = 1565008000"
    by (simp_all add: example_externals_def alice_def timestamp_def epoch_def)
  from r1 r2 r3 r4 r5 show ?thesis
    by (simp add: v message_def example_messages_def)
qed

text \<open>
  C1 as the claim states it, for every login request, fails at a request whose body is
  not a JSON object (an empty JSON array, or no JSON body at all, for which
  \<^verbatim>\<open>request.json\<close> is \<^verbatim>\<open>None\<close>): the username is absent, and
  \<^verbatim>\<open>request.json.get\<close> raises \<^verbatim>\<open>AttributeError\<close> instead of the answer
  \<^verbatim>\<open>USERNAME_FIELD_IS_MISSING\<close> with status 400.
\<close>

theorem LoginUser_post_not_object_counterexample:
  "LoginUser_post example_messages example_externals example_DAO (PList []) example_world
     = (Inl AttributeError, example_world) \<and>
   LoginUser_post example_messages example_externals example_DAO PNone example_world
     = (Inl AttributeError, example_world) \<and>
   fst (LoginUser_post example_messages example_externals example_DAO (PList []) example_world)
     \<noteq> Inr (message (USERNAME_FIELD_IS_MISSING example_messages), 400)"
  by (simp add: LoginUser_post_def)

lemma LoginUser_post_expiry:
  assumes "dict_get request_json ''username'' = Inr un"
    and "dict_get request_json ''password'' = Inr pw"
    and "truthy un" and "truthy pw"
    and "fst (authenticate DAO un pw (store w)) = Some u"
    and "is_email_verified u"
    and "JWT_ACCESS_TOKEN_EXPIRES ext = Some ttl"
    and "0 \<le> utcnow ext + ttl" and "utcnow ext + ttl < datetime_end"
  shows "fst (LoginUser_post rm ext DAO request_json w)
           = Inr (PDict [(''access_token'', PStr (create_access_token ext (id' u))),
                         (''expiry'',
                          PFloat (posix_of_utc (utcnow ext) + of_int ttl / 1000000
                                  - of_int (local_utcoffset ext (utcnow ext + ttl)) / 1000000))],
                  200)"
proof -
  have "timestamp ext (utcnow ext + ttl)
      = posix_of_utc (utcnow ext) + of_int ttl / 1000000
        - of_int (local_utcoffset ext (utcnow ext + ttl)) / 1000000"
    by (simp add: timestamp_def posix_of_utc_def field_simps)
  with assms show ?thesis
    by (cases "authenticate DAO un pw (store w)")
       (simp add: LoginUser_post_def dao_call_def datetime_add_def)
qed

text \<open>
  C6: the body of a successful login answer has exactly the entries \<^verbatim>\<open>access_token\<close>
  and \<^verbatim>\<open>expiry\<close>, but the expiry is the POSIX time of now plus the configured time to
  live only on a server whose zone is UTC: \<^verbatim>\<open>timestamp()\<close> reads the naive value of
  \<^verbatim>\<open>utcnow()\<close> plus the time to live as local time, so the expiry is short of it by the
  offset of the zone. On a server five and a half hours east of UTC, with a time to live
  of one week and the POSIX time 1564403200 now, the answer carries the expiry
  1564988200, while now plus seven days is 1565008000.
\<close>

theorem LoginUser_post_expiry_off_utc:
  "fst (LoginUser_post example_messages example_externals_east example_DAO
          (login_request (PStr ''alice'') (PStr ''Secret123'')) example_world)
     = Inr (PDict [(''access_token'', PStr ''token-1''), (''expiry'', PFloat 1564988200)], 200) \<and>
   JWT_ACCESS_TOKEN_EXPIRES example_externals_east = Some (7 * 86400 * 1000000) \<and>
   posix_of_utc (utcnow example_externals_east) = 1564403200 \<and>
   posix_of_utc (utcnow example_externals_east) + 7 * 86400 = 1565008000"
proof -
  have g1: "dict_get (login_request (PStr ''alice'') (PStr ''Secret123'')) ''username''
      = Inr (PStr ''alice'')"
    and g2: "dict_get (login_request (PStr ''alice'') (PStr ''Secret123'')) ''password''
      = Inr (PStr ''Secret123'')"
    by (simp_all add: login_request_def)
  have t: "truthy (PStr ''alice'')" "truthy (PStr ''Secret123'')"
    by simp_all
  have a: "fst (authenticate example_DAO (PStr ''alice'') (PStr ''Secret123'') (store example_world))
      = Some alice"
    by (simp add: example_defs)
  have v: "is_email_verified alice"
    by (simp add: alice_def)
  have c: "JWT_ACCESS_TOKEN_EXPIRES example_externals_east = Some (7 * 86400 * 1000000)"
    by (simp add: example_externals_east_def example_externals_def)
  have lo: "0 \<le> utcnow example_externals_east + 7 * 86400 * 1000000"
    and hi: "utcnow example_externals_east + 7 * 86400 * 1000000 < datetime_end"
    by (simp_all add: example_externals_east_def example_externals_def datetime_end_def)
  have k: "create_access_token example_externals_east (id' alice) = ''token-1''"
    by (simp add: example_externals_east_def example_externals_def alice_def)
  have p: "posix_of_utc (utcnow example_externals_east) = 1564403200"
    by (simp add: posix_of_utc_def epoch_def example_externals_east_def example_externals_def)
  have off: "local_utcoffset example_externals_east d = 19800 * 1000000" for d
    by (simp add: example_externals_east_def)
  from LoginUser_post_expiry [OF g1 g2 t a v c lo hi, of example_messages]
  have "fst (LoginUser_post example_messages example_externals_east example_DAO
          (login_request (PStr ''alice'') (PStr ''Secret123'')) example_world)
     = Inr (PDict [(''access_token'', PStr ''token-1''), (''expiry'', PFloat 1564988200)], 200)"
    by (simp add: k p off)
  with c p show ?thesis
    by simp
qed

text \<open>
  C9: a login request whose username is present and is the empty string is answered
  with \<^verbatim>\<open>USERNAME_FIELD_IS_MISSING\<close> and status 400, also when the password is empty
  too; one whose password is present and is the empty string is answered with status 400
  and \<^verbatim>\<open>PASSWORD_FIELD_IS_MISSING[1]\<close>, or with \<^verbatim>\<open>USERNAME_FIELD_IS_MISSING\<close> when
  the username is falsy as well. In both cases the store and the record of calls are as
  before: \<^verbatim>\<open>DAO.authenticate\<close> has not been called.
\<close>

theorem LoginUser_post_empty_string:
  "(map_of kvs ''username'' = Some (PStr []) \<longrightarrow>
      LoginUser_post rm ext DAO (PDict kvs) w
        = (Inr (message (USERNAME_FIELD_IS_MISSING rm), 400), w)) \<and>
   (map_of kvs ''password'' = Some (PStr []) \<and> dict_get (PDict kvs) ''username'' = Inr un \<and>
    subscript_index (PASSWORD_FIELD_IS_MISSING rm) 1 = Inr m \<longrightarrow>
      LoginUser_post rm ext DAO (PDict kvs) w
        = (Inr (message (if truthy un then m else USERNAME_FIELD_IS_MISSING rm), 400), w))"
  by (cases "map_of kvs ''password''") (auto simp add: LoginUser_post_def)

theorem LoginUser_post_empty_string_witness:
  "LoginUser_post example_messages example_externals example_DAO
     (login_request (PStr []) (PStr ''Secret123'')) example_world
     = (Inr (PDict [(''message'', PStr ''The field username is missing.'')], 400), example_world) \<and>
   LoginUser_post example_messages example_externals example_DAO
     (login_request (PStr []) (PStr [])) example_world
     = (Inr (PDict [(''message'', PStr ''The field username is missing.'')], 400), example_world) \<and>
   LoginUser_post example_messages example_externals example_DAO
     (login_request (PStr ''alice'') (PStr [])) example_world
     = (Inr (PDict [(''message'', PStr ''Password field is missing.'')], 400), example_world)"
proof -
  let ?L = "LoginUser_post example_messages example_externals example_DAO"
  have h1: "map_of [(''username'', PStr []), (''password'', p)] ''username'' = Some (PStr [])" for p
    by simp
  have r1: "?L (PDict [(''username'', PStr []), (''password'', p)]) example_world
      = (Inr (message (USERNAME_FIELD_IS_MISSING example_messages), 400), example_world)" for p
    using LoginUser_post_empty_string [where kvs = "[(''username'', PStr []), (''password'', p)]"
        and rm = example_messages and ext = example_externals and DAO = example_DAO
        and w = example_world] h1
    by blast
  have h2: "map_of [(''username'', PStr ''alice''), (''password'', PStr [])] ''password''
        = Some (PStr []) \<and>
      dict_get (PDict [(''username'', PStr ''alice''), (''password'', PStr [])]) ''username''
        = Inr (PStr ''alice'') \<and>
      subscript_index (PASSWORD_FIELD_IS_MISSING example_messages) 1
        = Inr (PStr ''Password field is missing.'')"
    by (simp add: example_messages_def)
  have r2: "?L (PDict [(''username'', PStr ''alice''), (''password'', PStr [])]) example_world
      = (Inr (message (if truthy (PStr ''alice'') then PStr ''Password field is missing.''
                       else USERNAME_FIELD_IS_MISSING example_messages), 400), example_world)"
    using LoginUser_post_empty_string
        [where kvs = "[(''username'', PStr ''alice''), (''password'', PStr [])]"
        and rm = example_messages and ext = example_externals and DAO = example_DAO
        and w = example_world and un = "PStr ''alice''" and m = "PStr ''Password field is missing.''"] h2
    by blast
  from r1 [of "PStr ''Secret123''"] r1 [of "PStr []"] r2 show ?thesis
    by (simp add: login_request_def message_def example_messages_def)
qed

text \<open>
  C8: when the validator of an update-profile, change-password or registration request
  returns anything but the empty dictionary, the handler returns that value with status
  400, and the store and the record of calls are as before: no method of the DAO (and no
  mailer) has been called.
\<close>

theorem validation_error_returns_400:
  "(validate_update_profile_request_data ext data \<noteq> PDict [] \<longrightarrow>
      MyUserProfile_put ext DAO jwt_identity data w
        = (Inr (validate_update_profile_request_data ext data, 400), w)) \<and>
   (validate_new_password ext data \<noteq> PDict [] \<longrightarrow>
      ChangeUserPassword_put ext DAO jwt_identity data w
        = (Inr (validate_new_password ext data, 400), w)) \<and>
   (validate_user_registration_request_data ext data \<noteq> PDict [] \<longrightarrow>
      UserRegister_post ext DAO data w
        = (Inr (validate_user_registration_request_data ext data, 400), w))"
  by (simp add: MyUserProfile_put_def ChangeUserPassword_put_def UserRegister_post_def)

theorem validation_error_returns_400_witness:
  "example_validate (PDict [(''name'', PStr ''Carol'')])
     = PDict [(''message'', PStr ''The email field is missing.'')] \<and>
   MyUserProfile_put example_externals example_DAO (PInt 1)
       (PDict [(''name'', PStr ''Carol'')]) example_world
     = (Inr (PDict [(''message'', PStr ''The email field is missing.'')], 400), example_world) \<and>
   ChangeUserPassword_put example_externals example_DAO (PInt 1)
       (PDict [(''name'', PStr ''Carol'')]) example_world
     = (Inr (PDict [(''message'', PStr ''The email field is missing.'')], 400), example_world) \<and>
   UserRegister_post example_externals example_DAO
       (PDict [(''name'', PStr ''Carol'')]) example_world
     = (Inr (PDict [(''message'', PStr ''The email field is missing.'')], 400), example_world)"
proof -
  let ?d = "PDict [(''name'', PStr ''Carol'')]"
  have e: "example_validate ?d = PDict [(''message'', PStr ''The email field is missing.'')]"
    by (simp add: example_validate_def)
  have v: "validate_update_profile_request_data example_externals = example_validate"
    "validate_new_password example_externals = example_validate"
    "validate_user_registration_request_data example_externals = example_validate"
    by (simp_all add: example_externals_def)
  have n: "example_validate ?d \<noteq> PDict []"
    by (simp add: e)
  from validation_error_returns_400 [of example_externals ?d example_DAO "PInt 1" example_world]
    n e
  show ?thesis by (simp add: v)
qed

text \<open>
  C4: for a registration request that passes the validation (and has the name and the
  email the handler reads), the handler calls \<^verbatim>\<open>DAO.create_user\<close>, returns its result,
  and calls \<^verbatim>\<open>send_email_verification_message(name, email)\<close> once exactly when the
  status of that result is the integer 200, which is what the identity test
  \<^verbatim>\<open>result[1] is 200\<close> decides.
\<close>

theorem UserRegister_post_email_iff_200:
  assumes "validate_user_registration_request_data ext data = PDict []"
    and "subscript_key data ''name'' = Inr user_name"
    and "subscript_key data ''email'' = Inr email_address"
    and "create_user DAO data (store w) = (result, s')"
  shows "UserRegister_post ext DAO data w =
           (Inr result,
            \<lparr>store = s',
             trace = trace w @ Dao_create_user data #
               (if snd result = 200
                then [Send_email_verification_message user_name email_address] else [])\<rparr>)"
  using assms
  by (simp add: UserRegister_post_def dao_call_def send_email_verification_message_def)

theorem UserRegister_post_email_iff_200_witness:
  "UserRegister_post example_externals example_DAO
       (PDict [(''name'', PStr ''Carol''), (''email'', PStr ''c@x.com'')]) example_world
     = (Inr (PDict [(''message'', PStr ''User was created successfully.'')], 200),
        \<lparr>store = example_store,
         trace = [Dao_create_user (PDict [(''name'', PStr ''Carol''), (''email'', PStr ''c@x.com'')]),
                  Send_email_verification_message (PStr ''Carol'') (PStr ''c@x.com'')]\<rparr>) \<and>
   UserRegister_post example_externals example_DAO
       (PDict [(''name'', PStr ''Alice''), (''email'', PStr ''a@x.com'')]) example_world
     = (Inr (PDict [(''message'', PStr ''A user with that email already exists'')], 400),
        \<lparr>store = example_store,
         trace = [Dao_create_user (PDict [(''name'', PStr ''Alice''), (''email'', PStr ''a@x.com'')])]\<rparr>)"
proof -
  let ?c = "PDict [(''name'', PStr ''Carol''), (''email'', PStr ''c@x.com'')]"
  let ?a = "PDict [(''name'', PStr ''Alice''), (''email'', PStr ''a@x.com'')]"
  have vc: "validate_user_registration_request_data example_externals ?c = PDict []"
    and va: "validate_user_registration_request_data example_externals ?a = PDict []"
    by (simp_all add: example_externals_def example_validate_def)
  have nc: "subscript_key ?c ''name'' = Inr (PStr ''Carol'')"
    and ec: "subscript_key ?c ''email'' = Inr (PStr ''c@x.com'')"
    and na: "subscript_key ?a ''name'' = Inr (PStr ''Alice'')"
    and ea: "subscript_key ?a ''email'' = Inr (PStr ''a@x.com'')"
    by simp_all
  have cc: "create_user example_DAO ?c (store example_world)
      = ((PDict [(''message'', PStr ''User was created successfully.'')], 200), example_store)"
    by (simp add: example_defs)
  have ca: "create_user example_DAO ?a (store example_world)
      = ((PDict [(''message'', PStr ''A user with that email already exists'')], 400), example_store)"
    by (simp add: example_defs)
  from UserRegister_post_email_iff_200 [OF vc nc ec cc]
    UserRegister_post_email_iff_200 [OF va na ea ca]
  show ?thesis by (simp add: example_world_def)
qed

text \<open>
  C5: for a resend-verification request that passes the validation (and has the email
  the handler reads), the handler looks the user up by that email and, in this order:
  answers \<^verbatim>\<open>USER_IS_NOT_REGISTERED_IN_THE_SYSTEM\<close> with status 404 when there is no such
  user; answers \<^verbatim>\<open>EMAIL_ALREADY_CONFIRMED\<close> with status 403 when the user's email is
  verified; otherwise calls \<^verbatim>\<open>send_email_verification_message(user.name, email)\<close> and
  answers \<^verbatim>\<open>EMAIL_VERIFICATION_MESSAGE\<close> with status 200. No email is sent in the two
  failing cases.
\<close>

theorem UserResendEmailConfirmation_post_outcomes:
  assumes "validate_resend_email_request_data ext data = PDict []"
    and "subscript_key data ''email'' = Inr email_address"
    and "get_user_by_email DAO email_address (store w) = (found, s')"
  shows
   "(found = None \<longrightarrow>
       UserResendEmailConfirmation_post rm ext DAO data w
         = (Inr (message (USER_IS_NOT_REGISTERED_IN_THE_SYSTEM rm), 404),
            \<lparr>store = s', trace = trace w @ [Dao_get_user_by_email email_address]\<rparr>)) \<and>
    (found = Some u \<and> is_email_verified u \<longrightarrow>
       UserResendEmailConfirmation_post rm ext DAO data w
         = (Inr (message (EMAIL_ALREADY_CONFIRMED rm), 403),
            \<lparr>store = s', trace = trace w @ [Dao_get_user_by_email email_address]\<rparr>)) \<and>
    (found = Some u \<and> \<not> is_email_verified u \<longrightarrow>
       UserResendEmailConfirmation_post rm ext DAO data w
         = (Inr (message (EMAIL_VERIFICATION_MESSAGE rm), 200),
            \<lparr>store = s',
             trace = trace w @ [Dao_get_user_by_email email_address,
                                Send_email_verification_message (PStr (name u)) email_address]\<rparr>))"
  using assms
  by (simp add: UserResendEmailConfirmation_post_def dao_call_def
        send_email_verification_message_def)

theorem UserResendEmailConfirmation_post_outcomes_witness:
  "UserResendEmailConfirmation_post example_messages example_externals example_DAO
       (PDict [(''email'', PStr ''nobody@x.com'')]) example_world
     = (Inr (PDict [(''message'', PStr ''You are not registered in the system.'')], 404),
        \<lparr>store = example_store, trace = [Dao_get_user_by_email (PStr ''nobody@x.com'')]\<rparr>) \<and>
   UserResendEmailConfirmation_post example_messages example_externals example_DAO
       (PDict [(''email'', PStr ''a@x.com'')]) example_world
     = (Inr (PDict [(''message'', PStr ''You already confirm your email.'')], 403),
        \<lparr>store = example_store, trace = [Dao_get_user_by_email (PStr ''a@x.com'')]\<rparr>) \<and>
   UserResendEmailConfirmation_post example_messages example_externals example_DAO
       (PDict [(''email'', PStr ''b@x.com'')]) example_world
     = (Inr (PDict [(''message'', PStr ''Check your email, a new verification email was sent.'')], 200),
        \<lparr>store = example_store,
         trace = [Dao_get_user_by_email (PStr ''b@x.com''),
                  Send_email_verification_message (PStr ''Bob'') (PStr ''b@x.com'')]\<rparr>)"
proof -
  have v: "validate_resend_email_request_data example_externals (PDict [(''email'', e)]) = PDict []"
    for e
    by (simp add: example_externals_def example_validate_def)
  have k: "subscript_key (PDict [(''email'', e)]) ''email'' = Inr e" for e
    by simp
  have g1: "get_user_by_email example_DAO (PStr ''nobody@x.com'') (store example_world)
      = (None, example_store)"
    and g2: "get_user_by_email example_DAO (PStr ''a@x.com'') (store example_world)
      = (Some alice, example_store)"
    and g3: "get_user_by_email example_DAO (PStr ''b@x.com'') (store example_world)
      = (Some bob, example_store)"
    by (simp_all add: example_defs)
  have s: "is_email_verified alice" "\<not> is_email_verified bob" "name bob = ''Bob''"
    by (simp_all add: alice_def bob_def)
  from UserResendEmailConfirmation_post_outcomes [OF v k g1, where u = bob and rm = example_messages]
    UserResendEmailConfirmation_post_outcomes [OF v k g2, where u = alice and rm = example_messages]
    UserResendEmailConfirmation_post_outcomes [OF v k g3, where u = bob and rm = example_messages] s
  show ?thesis by (simp add: message_def example_messages_def example_world_def)
qed

subsection \<open>With the data access object of the specification\<close>

lemma find_map_same_test:
  assumes "\<And>x. P (f x) = P x"
  shows "find P (map f xs) = map_option f (find P xs)"
  by (induction xs) (simp_all add: assms)

lemma find_by_email_set_verified:
  "find_by_email v (map (set_verified v') s) = map_option (set_verified v') (find_by_email v s)"
  unfolding find_by_email_def
  by (rule find_map_same_test) (simp add: set_verified_def)

lemma find_by_email_holds:
  "find_by_email v s = Some u \<Longrightarrow> PStr (email u) = v"
  by (auto simp add: find_by_email_def find_Some_iff)

lemma confirm_rejects_verified:
  assumes "decode t = Some e"
    and "find_by_email (PStr e) s = Some v"
    and "is_email_verified v"
  shows "spec_confirm_registration decode t s = (AlreadyConfirmed, s)"
  using assms by (simp add: spec_confirm_registration_def)

lemma confirm_keeps_verified:
  assumes "find_by_email (PStr e) s = Some v"
    and "is_email_verified v"
  shows "\<exists>v'. find_by_email (PStr e) (snd (spec_confirm_registration decode t s)) = Some v'
           \<and> is_email_verified v'"
proof (cases "decode t")
  case None
  with assms show ?thesis
    by (simp add: spec_confirm_registration_def)
next
  case (Some e2)
  show ?thesis
  proof (cases "find_by_email (PStr e2) s")
    case None
    with Some assms show ?thesis
      by (simp add: spec_confirm_registration_def)
  next
    case (Some u2)
    show ?thesis
    proof (cases "is_email_verified u2")
      case True
      with Some \<open>decode t = Some e2\<close> assms show ?thesis
        by (simp add: spec_confirm_registration_def)
    next
      case False
      have "find_by_email (PStr e) (map (set_verified (PStr e2)) s)
          = Some (set_verified (PStr e2) v)"
        using assms(1) by (simp add: find_by_email_set_verified)
      moreover have "is_email_verified (set_verified (PStr e2) v)"
        using assms(2) by (simp add: set_verified_def)
      ultimately show ?thesis
        using False Some \<open>decode t = Some e2\<close>
        by (simp add: spec_confirm_registration_def)
    qed
  qed
qed

lemma run_confirmations_keeps_verified:
  assumes "confirm_registration DAO = spec_confirm_registration decode"
  shows "find_by_email (PStr e) (store w) = Some v \<Longrightarrow> is_email_verified v \<Longrightarrow>
     \<exists>v'. find_by_email (PStr e) (store (run_confirmations DAO ts w)) = Some v'
          \<and> is_email_verified v'"
proof (induction ts arbitrary: w v)
  case Nil
  then show ?case by simp
next
  case (Cons t ts)
  let ?w1 = "snd (UserEmailConfirmation_get DAO t w)"
  have st: "store ?w1 = snd (spec_confirm_registration decode t (store w))"
    by (simp add: UserEmailConfirmation_get_def dao_call_def assms split: prod.split)
  from confirm_keeps_verified [OF Cons.prems, of decode t]
  obtain v1 where "find_by_email (PStr e) (store ?w1) = Some v1" and "is_email_verified v1"
    by (auto simp add: st)
  from Cons.IH [OF this] show ?case by simp
qed

text \<open>
  C2: with the confirmation of the specification behind the handler, a confirmation
  with a valid token for an unverified user succeeds and leaves that user verified; from
  then on, after any further run of confirmation requests, every confirmation with a
  valid token for that user is answered \<open>AlreadyConfirmed\<close> and leaves the store as it
  is.
\<close>

theorem confirmation_is_one_way:
  assumes "confirm_registration DAO = spec_confirm_registration decode"
    and "decode token = Some e"
    and "find_by_email (PStr e) (store w) = Some u"
    and "\<not> is_email_verified u"
  shows
   "fst (UserEmailConfirmation_get DAO token w) = Success \<and>
    find_by_email (PStr e) (store (snd (UserEmailConfirmation_get DAO token w)))
      = Some (u\<lparr>is_email_verified := True\<rparr>) \<and>
    (\<forall>tokens token'. decode token' = Some e \<longrightarrow>
       (let w2 = run_confirmations DAO tokens (snd (UserEmailConfirmation_get DAO token w))
        in fst (UserEmailConfirmation_get DAO token' w2) = AlreadyConfirmed \<and>
           store (snd (UserEmailConfirmation_get DAO token' w2)) = store w2))"
proof -
  let ?w1 = "snd (UserEmailConfirmation_get DAO token w)"
  have run: "UserEmailConfirmation_get DAO t x
      = (fst (spec_confirm_registration decode t (store x)),
         \<lparr>store = snd (spec_confirm_registration decode t (store x)),
          trace = trace x @ [Dao_confirm_registration t]\<rparr>)" for t x
    by (simp add: UserEmailConfirmation_get_def dao_call_def assms(1) split: prod.split)
  have first: "spec_confirm_registration decode token (store w)
      = (Success, map (set_verified (PStr e)) (store w))"
    using assms(2-4) by (simp add: spec_confirm_registration_def)
  have e: "PStr (email u) = PStr e"
    using assms(3) by (rule find_by_email_holds)
  have after: "find_by_email (PStr e) (store ?w1) = Some (u\<lparr>is_email_verified := True\<rparr>)"
    using assms(3) e by (simp add: run first find_by_email_set_verified set_verified_def)
  have later: "fst (UserEmailConfirmation_get DAO token' (run_confirmations DAO tokens ?w1))
        = AlreadyConfirmed \<and>
      store (snd (UserEmailConfirmation_get DAO token' (run_confirmations DAO tokens ?w1)))
        = store (run_confirmations DAO tokens ?w1)"
    if d: "decode token' = Some e" for tokens token'
  proof -
    from run_confirmations_keeps_verified [OF assms(1) after, of tokens]
    obtain v' where f: "find_by_email (PStr e) (store (run_confirmations DAO tokens ?w1)) = Some v'"
      and v: "is_email_verified v'"
      by auto
    from confirm_rejects_verified [where decode = decode, OF d f v] show ?thesis
      by (simp add: run)
  qed
  from first after later show ?thesis
    by (simp add: run Let_def)
qed

theorem confirmation_is_one_way_witness:
  "fst (UserEmailConfirmation_get example_DAO (PStr ''b@x.com'') example_world) = Success \<and>
   find_by_email (PStr ''b@x.com'')
       (store (snd (UserEmailConfirmation_get example_DAO (PStr ''b@x.com'') example_world)))
     = Some (bob\<lparr>is_email_verified := True\<rparr>) \<and>
   fst (UserEmailConfirmation_get example_DAO (PStr ''b@x.com'')
          (run_confirmations example_DAO [PStr ''a@x.com'', PNone]
             (snd (UserEmailConfirmation_get example_DAO (PStr ''b@x.com'') example_world))))
     = AlreadyConfirmed \<and>
   store (snd (UserEmailConfirmation_get example_DAO (PStr ''b@x.com'')
          (run_confirmations example_DAO [PStr ''a@x.com'', PNone]
             (snd (UserEmailConfirmation_get example_DAO (PStr ''b@x.com'') example_world)))))
     = [alice, bob\<lparr>is_email_verified := True\<rparr>]"
proof -
  have c: "confirm_registration example_DAO = spec_confirm_registration example_decode"
    by (simp add: example_DAO_def)
  have d: "example_decode (PStr ''b@x.com'') = Some ''b@x.com''"
    by (simp add: example_decode_def)
  have f: "find_by_email (PStr ''b@x.com'') (store example_world) = Some bob"
    by (simp add: example_defs)
  have n: "\<not> is_email_verified bob"
    by (simp add: bob_def)
  note t = confirmation_is_one_way [OF c d f n]
  from t have a: "fst (UserEmailConfirmation_get example_DAO (PStr ''b@x.com'') example_world) = Success"
    and b: "find_by_email (PStr ''b@x.com'')
       (store (snd (UserEmailConfirmation_get example_DAO (PStr ''b@x.com'') example_world)))
      = Some (bob\<lparr>is_email_verified := True\<rparr>)"
    by blast+
  from t d have l: "let w2 = run_confirmations example_DAO [PStr ''a@x.com'', PNone]
        (snd (UserEmailConfirmation_get example_DAO (PStr ''b@x.com'') example_world))
      in fst (UserEmailConfirmation_get example_DAO (PStr ''b@x.com'') w2) = AlreadyConfirmed \<and>
         store (snd (UserEmailConfirmation_get example_DAO (PStr ''b@x.com'') w2)) = store w2"
    by blast
  have s: "store (run_confirmations example_DAO [PStr ''a@x.com'', PNone]
        (snd (UserEmailConfirmation_get example_DAO (PStr ''b@x.com'') example_world)))
      = [alice, bob\<lparr>is_email_verified := True\<rparr>]"
    by (simp add: UserEmailConfirmation_get_def dao_call_def example_defs)
  from l have l': "fst (UserEmailConfirmation_get example_DAO (PStr ''b@x.com'')
        (run_confirmations example_DAO [PStr ''a@x.com'', PNone]
           (snd (UserEmailConfirmation_get example_DAO (PStr ''b@x.com'') example_world))))
      = AlreadyConfirmed \<and>
    store (snd (UserEmailConfirmation_get example_DAO (PStr ''b@x.com'')
        (run_confirmations example_DAO [PStr ''a@x.com'', PNone]
           (snd (UserEmailConfirmation_get example_DAO (PStr ''b@x.com'') example_world)))))
      = [alice, bob\<lparr>is_email_verified := True\<rparr>]"
    unfolding Let_def s .
  from a b l' show ?thesis
    by blast
qed

text \<open>
  C3: with the authentication of the specification behind the handler, a login attempt
  whose identifier matches no stored user and a login attempt with a known identifier
  and a wrong password get the same answer, the message
  \<^verbatim>\<open>USERNAME_OR_PASSWORD_FIELD_IS_INCORRECTLY_FILLED_UP\<close> with status 404, and both
  leave the store as it is.
\<close>

theorem login_failures_indistinguishable:
  assumes "authenticate DAO = spec_authenticate check_password_hash"
    and "dict_get request1 ''username'' = Inr identifier1"
    and "dict_get request1 ''password'' = Inr password1"
    and "dict_get request2 ''username'' = Inr identifier2"
    and "dict_get request2 ''password'' = Inr password2"
    and "truthy identifier1" and "truthy password1"
    and "truthy identifier2" and "truthy password2"
    and "resolve_identifier identifier1 (store w) = None"
    and "resolve_identifier identifier2 (store w) = Some u"
    and "\<not> check_password_hash (password_hash u) password2"
  shows
   "fst (LoginUser_post rm ext DAO request1 w)
      = Inr (message (USERNAME_OR_PASSWORD_FIELD_IS_INCORRECTLY_FILLED_UP rm), 404) \<and>
    fst (LoginUser_post rm ext DAO request2 w) = fst (LoginUser_post rm ext DAO request1 w) \<and>
    store (snd (LoginUser_post rm ext DAO request1 w)) = store w \<and>
    store (snd (LoginUser_post rm ext DAO request2 w)) = store w"
  using assms
  by (simp add: LoginUser_post_def dao_call_def spec_authenticate_def)

theorem login_failures_indistinguishable_witness:
  "resolve_identifier (PStr ''mallory'') (store example_world) = None \<and>
   resolve_identifier (PStr ''alice'') (store example_world) = Some alice \<and>
   fst (LoginUser_post example_messages example_externals example_DAO
          (login_request (PStr ''mallory'') (PStr ''guess'')) example_world)
     = Inr (PDict [(''message'', PStr ''Username or password is wrong.'')], 404) \<and>
   fst (LoginUser_post example_messages example_externals example_DAO
          (login_request (PStr ''alice'') (PStr ''guess'')) example_world)
     = Inr (PDict [(''message'', PStr ''Username or password is wrong.'')], 404)"
proof -
  have a: "authenticate example_DAO = spec_authenticate (\<lambda>h p. p = PStr h)"
    by (simp add: example_DAO_def)
  have g: "dict_get (login_request i p) ''username'' = Inr i"
    "dict_get (login_request i p) ''password'' = Inr p" for i p
    by (simp_all add: login_request_def)
  have t: "truthy (PStr ''mallory'')" "truthy (PStr ''guess'')" "truthy (PStr ''alice'')"
    by simp_all
  have r1: "resolve_identifier (PStr ''mallory'') (store example_world) = None"
    and r2: "resolve_identifier (PStr ''alice'') (store example_world) = Some alice"
    by (simp_all add: example_defs)
  have c: "\<not> (\<lambda>h p. p = PStr h) (password_hash alice) (PStr ''guess'')"
    by (simp add: alice_def)
  from login_failures_indistinguishable [OF a g g t(1) t(2) t(3) t(2) r1 r2 c,
      where rm = example_messages and ext = example_externals] r1 r2
  show ?thesis
    by (simp add: message_def example_messages_def)
qed

end
